theory Spec2Isabelle
  imports Complex_Main "HOL-Library.AList"
begin

section \<open>Values, exceptions and collaborator objects\<close>

text \<open>
  The program is one Streamlit script, \<^verbatim>\<open>predict_mental_health.py\<close>. Streamlit runs the
  whole script from top to bottom on every interaction; only \<^verbatim>\<open>st.session_state\<close>
  survives from one run to the next. An uncaught exception ends the run; what was
  assigned to the session state before it stays assigned.
\<close>

datatype exn =
    KeyError string
  | AttributeError string
  | UnknownCategory
  | ClassifierUnavailable
  | Raised string

text \<open>A cell of the one-row data frame \<^verbatim>\<open>user_input\<close>.\<close>

datatype val = IntV int | FloatV rat | StrV string | BoolV bool

type_synonym row = "(string \<times> val) list"

text \<open>The classifier object, used through its two methods only.\<close>

record classifier =
  predict :: "val list \<Rightarrow> exn + nat"
  predict_proba :: "val list list \<Rightarrow> exn + rat list list"

text \<open>
  Modelled from the spec: the label encoders are unpickled objects whose class is not
  part of the sources. Section 6 gives their contract: deterministic, total over the
  training-time value set, failing with \<open>UnknownCategory\<close> outside it. An encoder is
  the table of its training-time values with their codes.
\<close>

type_synonym encoder = "(val \<times> int) list"

definition value_set :: "encoder \<Rightarrow> val set" where
  "value_set enc = fst ` set enc"

definition transform :: "encoder \<Rightarrow> val \<Rightarrow> exn + val" where
  "transform enc v =
     (case map_of enc v of None \<Rightarrow> Inl UnknownCategory | Some c \<Rightarrow> Inr (IntV c))"

text \<open>
  Modelled from the spec: the target encoder, \<open>decode(class index) -> label string\<close>
  of section 6, with the same failure outside the training-time classes.
\<close>

type_synonym target_encoder = "string list"

definition classes :: "target_encoder \<Rightarrow> string list" where
  "classes te = te"

definition inverse_transform :: "target_encoder \<Rightarrow> nat \<Rightarrow> exn + string" where
  "inverse_transform te c = (if c < length te then Inr (te ! c) else Inl UnknownCategory)"

record frame =
  columns :: "string list"
  rows :: "val list list"

text \<open>
  Modelled from the spec: the Explanation of section 3, an ordered sequence of
  (feature name, coefficient, contribution description) with its fidelity score.
\<close>

record explanation =
  entries :: "(string \<times> rat \<times> string) list"
  fidelity :: rat

text \<open>
  Modelled from the spec: the explainer object comes from the library
  \<^verbatim>\<open>lime.lime_tabular\<close>, which is not part of the sources. Sections 4.2 to 4.5 describe it
  as a pipeline around one batched classifier query: the Perturbation Sampler draws the
  neighbourhood of the target from a random source, the classifier is queried on the
  whole neighbourhood, and weighting, surrogate fit and assembly turn the returned
  probabilities into the Explanation or fail. The two stages are left open.
\<close>

record explainer =
  neighborhood :: "nat \<Rightarrow> val list \<Rightarrow> val list list \<times> nat"
  fit :: "val list \<Rightarrow> val list list \<Rightarrow> rat list list \<Rightarrow> exn + explanation"

section \<open>Session state, outputs and the script monad\<close>

text \<open>
  \<^verbatim>\<open>st.session_state\<close>: an attribute that was never assigned is \<open>None\<close>; \<open>loaded\<close>
  is the test \<^verbatim>\<open>'loaded' in st.session_state\<close>.
\<close>

record session =
  xgb_model :: "classifier option"
  label_encoders :: "(string \<times> encoder) list option"
  target_encoder :: "target_encoder option"
  X_train :: "frame option"
  explainer :: "explainer option"
  loaded :: bool

datatype pdf_op =
    SetAutoPageBreak bool nat
  | AddPage
  | SetFont string nat
  | Cell nat nat string bool string
  | Ln nat
  | MultiCell nat nat string

datatype content = Text string | Pdf "pdf_op list"

text \<open>
  What a run does to the outside, in order: calls to the generative-language library
  (\<open>Configure\<close>, \<open>Generate\<close>), reads of pickle files (\<open>Load\<close>), requests to the
  explainer (\<open>Explain\<close>) and what it puts on the page.
\<close>

datatype event =
    Configure string
  | Load string
  | SidebarHeader string
  | Title string
  | Success string
  | Write string
  | Explain "val list"
  | Download string content string string
  | Generate string

text \<open>
  The world of a run: the session state, the effects so far, the files the script
  writes and reads back, and the state of the random source the sampler draws from
  (the script passes no seed to the explainer).
\<close>

record world =
  session :: session
  events :: "event list"
  fs :: "string \<rightharpoonup> content"
  np_random :: nat

type_synonym 'a script = "world \<Rightarrow> (exn + 'a) \<times> world"

definition return :: "'a \<Rightarrow> 'a script" where
  "return a w = (Inr a, w)"

definition and_then :: "'a script \<Rightarrow> ('a \<Rightarrow> 'b script) \<Rightarrow> 'b script" where
  "and_then m f w = (case m w of (Inl e, w') \<Rightarrow> (Inl e, w') | (Inr a, w') \<Rightarrow> f a w')"

definition lift :: "exn + 'a \<Rightarrow> 'a script" where
  "lift r w = (r, w)"

definition emit :: "event \<Rightarrow> unit script" where
  "emit ev w = (Inr (), w\<lparr>events := events w @ [ev]\<rparr>)"

definition assign :: "(session \<Rightarrow> session) \<Rightarrow> unit script" where
  "assign f w = (Inr (), w\<lparr>session := f (session w)\<rparr>)"

definition attr :: "string \<Rightarrow> (session \<Rightarrow> 'a option) \<Rightarrow> 'a script" where
  "attr name field w =
     (case field (session w) of None \<Rightarrow> (Inl (AttributeError name), w) | Some a \<Rightarrow> (Inr a, w))"

section \<open>Inputs of one run\<close>

text \<open>The fifteen form widgets.\<close>

record form =
  age :: int
  gender :: string
  bmi :: rat
  who_bmi :: string
  phq_score :: int
  depressiveness :: bool
  suicidal :: bool
  depression_diagnosis :: bool
  depression_treatment :: bool
  gad_score :: int
  anxiousness :: bool
  anxiety_diagnosis :: bool
  anxiety_treatment :: bool
  epworth_score :: int
  sleepiness :: bool

text \<open>What \<^verbatim>\<open>joblib.load\<close> gives for each of the four pickle files (\<open>Inl\<close>: it raises).\<close>

record files =
  xgboost_model_pkl :: "exn + classifier"
  label_encoders_pkl :: "exn + (string \<times> encoder) list"
  target_encoder_pkl :: "exn + target_encoder"
  X_train_pkl :: "exn + frame"

text \<open>
  The environment of a run: the sidebar key, the form, the button, the files, and the
  library functions the script calls: the explainer's constructor, the HTML rendering
  of an explanation, Python's \<^verbatim>\<open>str\<close> on a cell and the generative-language service
  (its response is falsy, \<open>None\<close>, or has a \<^verbatim>\<open>text\<close> that may raise).
\<close>

record env =
  gemini_api_key :: string
  widgets :: form
  button :: bool
  pickles :: files
  lime_tabular_explainer ::
    "val list list \<Rightarrow> string list \<Rightarrow> string list \<Rightarrow> string \<Rightarrow> bool \<Rightarrow> exn + explainer"
  as_html :: "explanation \<Rightarrow> string"
  str :: "val \<Rightarrow> string"
  generate_content :: "string \<Rightarrow> exn + (exn + string) option"

section \<open>The script\<close>

subsection \<open>Sidebar (lines 10 to 15)\<close>

definition sidebar :: "env \<Rightarrow> unit script" where
  "sidebar env =
     and_then (emit (SidebarHeader ''API Key Settings'')) (\<lambda>_.
     if gemini_api_key env \<noteq> [] then emit (Configure (gemini_api_key env)) else return ())"

subsection \<open>The explanation by the generative-language service (lines 83 to 95)\<close>

definition newline :: string where
  "newline = [CHR 0x0A]"

definition prompt :: "string \<Rightarrow> string \<Rightarrow> string" where
  "prompt predicted_label user_input_data =
     newline @ ''    Given the predicted mental health condition: '' @ predicted_label @ '',''
     @ newline
     @ ''    provide a natural language explanation for why this prediction was made based on the following user data:''
     @ newline @ ''    '' @ user_input_data @ ''.'' @ newline @ ''    ''"

definition generate_gemini_explanation :: "env \<Rightarrow> string \<Rightarrow> string \<Rightarrow> string script" where
  "generate_gemini_explanation env predicted_label user_input_data =
     (if gemini_api_key env = []
      then return ''Please enter a valid Google Gemini API key in the sidebar.''
      else
        and_then (emit (Generate (prompt predicted_label user_input_data))) (\<lambda>_.
        and_then (lift (generate_content env (prompt predicted_label user_input_data)))
          (\<lambda>response.
             case response of
               None \<Rightarrow> return ''No response generated.''
             | Some text \<Rightarrow> lift text)))"

subsection \<open>Session initialisation (lines 17 to 32)\<close>

definition xgboost_model_path :: string where
  "xgboost_model_path = ''models/depression_anxiety_data.csv_models/xgboost_model.pkl''"

definition label_encoders_path :: string where
  "label_encoders_path = ''encoders/depression_anxiety_data.csv_encoders/label_encoders.pkl''"

definition target_encoder_path :: string where
  "target_encoder_path = ''encoders/depression_anxiety_data.csv_encoders/target_encoder.pkl''"

definition X_train_path :: string where
  "X_train_path = ''datasets/datasets_pickle/depression_anxiety_data.csv_pickle/X_train.pkl''"

definition joblib_load :: "string \<Rightarrow> exn + 'a \<Rightarrow> 'a script" where
  "joblib_load path pickled = and_then (emit (Load path)) (\<lambda>_. lift pickled)"

definition initialise :: "env \<Rightarrow> unit script" where
  "initialise env w =
     (if loaded (session w) then return () w
      else
        (and_then (joblib_load xgboost_model_path (xgboost_model_pkl (pickles env))) (\<lambda>m.
         and_then (assign (\<lambda>s. s\<lparr>xgb_model := Some m\<rparr>)) (\<lambda>_.
         and_then (joblib_load label_encoders_path (label_encoders_pkl (pickles env))) (\<lambda>le.
         and_then (assign (\<lambda>s. s\<lparr>label_encoders := Some le\<rparr>)) (\<lambda>_.
         and_then (joblib_load target_encoder_path (target_encoder_pkl (pickles env))) (\<lambda>te.
         and_then (assign (\<lambda>s. s\<lparr>target_encoder := Some te\<rparr>)) (\<lambda>_.
         and_then (joblib_load X_train_path (X_train_pkl (pickles env))) (\<lambda>x.
         and_then (assign (\<lambda>s. s\<lparr>X_train := Some x\<rparr>)) (\<lambda>_.
         and_then (attr ''X_train'' X_train) (\<lambda>training.
         and_then (attr ''target_encoder'' target_encoder) (\<lambda>target.
         and_then (lift (lime_tabular_explainer env (rows training) (columns training)
                           (classes target) ''classification'' False)) (\<lambda>ex.
         and_then (assign (\<lambda>s. s\<lparr>explainer := Some ex\<rparr>)) (\<lambda>_.
         assign (\<lambda>s. s\<lparr>loaded := True\<rparr>)))))))))))))) w)"

subsection \<open>The form and its encoding (lines 37 to 77)\<close>

definition user_input :: "form \<Rightarrow> row" where
  "user_input f =
     [(''age'', IntV (age f)),
      (''gender'', StrV (gender f)),
      (''bmi'', FloatV (bmi f)),
      (''who_bmi'', StrV (who_bmi f)),
      (''phq_score'', IntV (phq_score f)),
      (''depressiveness'', BoolV (depressiveness f)),
      (''suicidal'', BoolV (suicidal f)),
      (''depression_diagnosis'', BoolV (depression_diagnosis f)),
      (''depression_treatment'', BoolV (depression_treatment f)),
      (''gad_score'', IntV (gad_score f)),
      (''anxiousness'', BoolV (anxiousness f)),
      (''anxiety_diagnosis'', BoolV (anxiety_diagnosis f)),
      (''anxiety_treatment'', BoolV (anxiety_treatment f)),
      (''epworth_score'', IntV (epworth_score f)),
      (''sleepiness'', BoolV (sleepiness f))]"

text \<open>
  The loop over the keys of \<^verbatim>\<open>label_encoders\<close>: each column is looked up in the
  dictionary and in the frame (a missing key raises), transformed, and written back in
  place.
\<close>

fun encode_columns :: "(string \<times> encoder) list \<Rightarrow> string list \<Rightarrow> row \<Rightarrow> exn + row" where
  "encode_columns encs [] df = Inr df"
| "encode_columns encs (col # cols) df =
     (case map_of encs col of
        None \<Rightarrow> Inl (KeyError col)
      | Some enc \<Rightarrow>
          (case map_of df col of
             None \<Rightarrow> Inl (KeyError col)
           | Some v \<Rightarrow>
               (case transform enc v of
                  Inl e \<Rightarrow> Inl e
                | Inr c \<Rightarrow> encode_columns encs cols (AList.update col c df))))"

definition encode :: "(string \<times> encoder) list \<Rightarrow> row \<Rightarrow> exn + row" where
  "encode encs df = encode_columns encs (map fst encs) df"

subsection \<open>The PDF report (lines 97 to 117)\<close>

definition report_path :: string where
  "report_path = ''mental_health_report.pdf''"

definition write_file :: "string \<Rightarrow> content \<Rightarrow> unit script" where
  "write_file path c w = (Inr (), w\<lparr>fs := (fs w)(path \<mapsto> c)\<rparr>)"

definition read_file :: "string \<Rightarrow> content script" where
  "read_file path w =
     (case fs w path of None \<Rightarrow> (Inl (Raised ''FileNotFoundError''), w) | Some c \<Rightarrow> (Inr c, w))"

definition remove_file :: "string \<Rightarrow> unit script" where
  "remove_file path w =
     (case fs w path of
        None \<Rightarrow> (Inl (Raised ''FileNotFoundError''), w)
      | Some _ \<Rightarrow> (Inr (), w\<lparr>fs := (fs w)(path := None)\<rparr>))"

definition generate_pdf_report :: "string \<Rightarrow> string \<Rightarrow> string \<Rightarrow> string script" where
  "generate_pdf_report predicted_label explanation coping_mechanisms =
     and_then (write_file report_path (Pdf
       [SetAutoPageBreak True 15,
        AddPage,
        SetFont ''Arial'' 12,
        Cell 200 10 ''Mental Health Prediction & Report'' True ''C'',
        Ln 10,
        Cell 200 10 (''Predicted Mental Health Condition: '' @ predicted_label) True [],
        Ln 5,
        MultiCell 200 10 (''Explanation:'' @ newline @ explanation),
        Ln 10,
        MultiCell 200 10 (''Coping Mechanisms and Next Steps:'' @ newline @ coping_mechanisms)]))
       (\<lambda>_. return report_path)"

subsection \<open>Prediction and explanation (lines 119 to 167)\<close>

text \<open>
  Modelled from the spec: \<^verbatim>\<open>explain_instance\<close> of the explainer library. The
  neighbourhood is drawn, the classifier is queried on it in a single batched call, and
  a failure of that call is propagated as \<open>ClassifierUnavailable\<close> (section 4.4); there
  is no fallback.
\<close>

definition sample :: "explainer \<Rightarrow> val list \<Rightarrow> val list list script" where
  "sample ex data_row w =
     (case neighborhood ex (np_random w) data_row of
        (nb, g) \<Rightarrow> (Inr nb, w\<lparr>np_random := g\<rparr>))"

definition query :: "(val list list \<Rightarrow> exn + rat list list) \<Rightarrow> val list list \<Rightarrow> exn + rat list list" where
  "query predict_fn nb =
     (case predict_fn nb of Inl _ \<Rightarrow> Inl ClassifierUnavailable | Inr ps \<Rightarrow> Inr ps)"

definition explain_instance ::
    "explainer \<Rightarrow> val list \<Rightarrow> (val list list \<Rightarrow> exn + rat list list) \<Rightarrow> explanation script" where
  "explain_instance ex data_row predict_fn =
     and_then (emit (Explain data_row)) (\<lambda>_.
     and_then (sample ex data_row) (\<lambda>nb.
     and_then (lift (query predict_fn nb)) (\<lambda>ps.
     lift (fit ex data_row nb ps))))"

definition lime_html_path :: string where
  "lime_html_path = ''lime_explanation.html''"

fun join :: "string \<Rightarrow> string list \<Rightarrow> string" where
  "join sep [] = []"
| "join sep [x] = x"
| "join sep (x # y # ys) = x @ sep @ join sep (y # ys)"

definition predict_and_explain :: "env \<Rightarrow> row \<Rightarrow> unit script" where
  "predict_and_explain env df =
     and_then (attr ''xgb_model'' xgb_model) (\<lambda>model.
     and_then (lift (predict model (map snd df))) (\<lambda>prediction.
     and_then (attr ''target_encoder'' target_encoder) (\<lambda>target.
     and_then (lift (inverse_transform target prediction)) (\<lambda>predicted_label.
     and_then (emit (Success (''**Predicted Mental Health Condition:** '' @ predicted_label))) (\<lambda>_.
     and_then (emit (Write ''### LIME Explanation:'')) (\<lambda>_.
     and_then (attr ''explainer'' explainer) (\<lambda>ex.
     and_then (attr ''xgb_model'' xgb_model) (\<lambda>model.
     and_then (explain_instance ex (map snd df) (predict_proba model)) (\<lambda>exp.
     and_then (write_file lime_html_path (Text (as_html env exp))) (\<lambda>_.
     and_then (read_file lime_html_path) (\<lambda>lime_html.
     and_then (emit (Download ''Download LIME Explanation'' lime_html
                       ''lime_explanation.html'' ''text/html'')) (\<lambda>_.
     and_then (remove_file lime_html_path) (\<lambda>_.
     and_then (generate_gemini_explanation env predicted_label
                 (join '', '' (map (\<lambda>(col, v). col @ '': '' @ str env v) df))) (\<lambda>explanation.
     and_then (emit (Write ''### Natural Language Explanation:'')) (\<lambda>_.
     and_then (emit (Write explanation)) (\<lambda>_.
     and_then (generate_gemini_explanation env predicted_label
                 ''Suggest coping mechanisms and next steps.'') (\<lambda>coping_mechanisms.
     and_then (emit (Write ''### Suggested Coping Mechanisms:'')) (\<lambda>_.
     and_then (emit (Write coping_mechanisms)) (\<lambda>_.
     and_then (generate_pdf_report predicted_label explanation coping_mechanisms) (\<lambda>path.
     and_then (read_file path) (\<lambda>f.
     and_then (emit (Download ''Download PDF Report'' f
                       ''mental_health_report.pdf'' ''application/pdf'')) (\<lambda>_.
     emit (Write ''Open the downloaded file to view the report.'')))))))))))))))))))))))"

subsection \<open>One run of the script, and a session of runs\<close>

text \<open>The page below the initialisation block: lines 34 to 167.\<close>

definition page :: "env \<Rightarrow> unit script" where
  "page env =
     and_then (emit (Title ''Mental Health Prediction & Explainability'')) (\<lambda>_.
     and_then (attr ''label_encoders'' label_encoders) (\<lambda>encs.
     and_then (lift (encode encs (user_input (widgets env)))) (\<lambda>df.
     if button env then predict_and_explain env df else return ())))"

definition script :: "env \<Rightarrow> unit script" where
  "script env =
     and_then (sidebar env) (\<lambda>_.
     and_then (initialise env) (\<lambda>_.
     page env))"

text \<open>A session is a sequence of runs, each with its own environment.\<close>

fun reruns :: "env list \<Rightarrow> world \<Rightarrow> world" where
  "reruns [] w = w"
| "reruns (env # envs) w = reruns envs (snd (script env w))"

section \<open>Observations on a trace\<close>

fun explain_calls :: "event list \<Rightarrow> val list list" where
  "explain_calls [] = []"
| "explain_calls (Explain x # evs) = x # explain_calls evs"
| "explain_calls (_ # evs) = explain_calls evs"

fun loads :: "event list \<Rightarrow> string list" where
  "loads [] = []"
| "loads (Load p # evs) = p # loads evs"
| "loads (_ # evs) = loads evs"

fun downloads :: "event list \<Rightarrow> (string \<times> content) list" where
  "downloads [] = []"
| "downloads (Download label c name mime # evs) = (name, c) # downloads evs"
| "downloads (_ # evs) = downloads evs"

text \<open>A step is quiet when it neither changes the session state nor loads a pickle.\<close>

definition quiet :: "'a script \<Rightarrow> bool" where
  "quiet m \<longleftrightarrow>
     (\<forall>w. session (snd (m w)) = session w \<and> loads (events (snd (m w))) = loads (events w))"

section \<open>Example inputs\<close>

text \<open>The form with the default of every widget.\<close>

definition demo_form :: form where
  "demo_form = \<lparr>age = 25, gender = ''male'', bmi = 49 / 2, who_bmi = ''Underweight'',
     phq_score = 12, depressiveness = True, suicidal = False, depression_diagnosis = False,
     depression_treatment = False, gad_score = 10, anxiousness = True,
     anxiety_diagnosis = False, anxiety_treatment = False, epworth_score = 6,
     sleepiness = False\<rparr>"

definition demo_encoders :: "(string \<times> encoder) list" where
  "demo_encoders =
     [(''gender'', [(StrV ''female'', 0), (StrV ''male'', 1)]),
      (''who_bmi'', [(StrV ''Normal'', 0), (StrV ''Overweight'', 1), (StrV ''Underweight'', 2)])]"

text \<open>A classifier that predicts class \<open>c\<close> and whose \<^verbatim>\<open>predict_proba\<close> always raises.\<close>

definition demo_classifier :: "nat \<Rightarrow> classifier" where
  "demo_classifier c = \<lparr>predict = (\<lambda>_. Inr c), predict_proba = (\<lambda>_. Inl (Raised ''down''))\<rparr>"

definition demo_explainer :: explainer where
  "demo_explainer = \<lparr>neighborhood = (\<lambda>g x. ([x], Suc g)),
     fit = (\<lambda>x nb ps. Inr \<lparr>entries = [], fidelity = 1\<rparr>)\<rparr>"

definition demo_frame :: frame where
  "demo_frame = \<lparr>columns = [], rows = []\<rparr>"

definition demo_files :: "nat \<Rightarrow> files" where
  "demo_files c = \<lparr>xgboost_model_pkl = Inr (demo_classifier c),
     label_encoders_pkl = Inr demo_encoders,
     target_encoder_pkl = Inr [''Mild'', ''Severe''],
     X_train_pkl = Inr demo_frame\<rparr>"

definition demo_env :: env where
  "demo_env = \<lparr>gemini_api_key = [], widgets = demo_form, button = False,
     pickles = demo_files 0,
     lime_tabular_explainer = (\<lambda>_ _ _ _ _. Inr demo_explainer),
     as_html = (\<lambda>_. []), str = (\<lambda>_. []), generate_content = (\<lambda>_. Inr None)\<rparr>"

text \<open>A run in which the label encoders' file cannot be read.\<close>

definition failing_env :: env where
  "failing_env =
     demo_env\<lparr>pickles := (demo_files 0)\<lparr>label_encoders_pkl := Inl (Raised ''FileNotFoundError'')\<rparr>\<rparr>"

definition fresh_world :: world where
  "fresh_world = \<lparr>session = \<lparr>xgb_model = None, label_encoders = None, target_encoder = None,
       X_train = None, explainer = None, loaded = False\<rparr>,
     events = [], fs = Map.empty, np_random = 0\<rparr>"

definition loaded_world :: world where
  "loaded_world = \<lparr>session = \<lparr>xgb_model = Some (demo_classifier 0),
       label_encoders = Some demo_encoders, target_encoder = Some [''Mild'', ''Severe''],
       X_train = Some demo_frame, explainer = Some demo_explainer, loaded = True\<rparr>,
     events = [], fs = Map.empty, np_random = 0\<rparr>"

section \<open>Properties\<close>

subsection \<open>Traces\<close>

lemma loads_append: "loads (xs @ ys) = loads xs @ loads ys"
  by (induction xs rule: loads.induct) simp_all

lemma explain_calls_append: "explain_calls (xs @ ys) = explain_calls xs @ explain_calls ys"
  by (induction xs rule: explain_calls.induct) simp_all

lemma downloads_append: "downloads (xs @ ys) = downloads xs @ downloads ys"
  by (induction xs rule: downloads.induct) simp_all

subsection \<open>Steps that leave the session state alone\<close>

lemma quiet_return: "quiet (return a)"
  by (simp add: quiet_def return_def)

lemma quiet_lift: "quiet (lift r)"
  by (simp add: quiet_def lift_def)

lemma quiet_attr: "quiet (attr name field)"
  by (simp add: quiet_def attr_def split: option.split)

lemma quiet_emit: "loads [ev] = [] \<Longrightarrow> quiet (emit ev)"
  by (simp add: quiet_def emit_def loads_append)

lemma quiet_and_then: "quiet m \<Longrightarrow> (\<And>a. quiet (f a)) \<Longrightarrow> quiet (and_then m f)"
  unfolding quiet_def and_then_def
  by (auto split: prod.split sum.split) (metis snd_conv)+

lemma quiet_write_file: "quiet (write_file path c)"
  by (simp add: quiet_def write_file_def)

lemma quiet_read_file: "quiet (read_file path)"
  by (simp add: quiet_def read_file_def split: option.split)

lemma quiet_remove_file: "quiet (remove_file path)"
  by (simp add: quiet_def remove_file_def split: option.split)

lemma quiet_sample: "quiet (sample ex x)"
  by (simp add: quiet_def sample_def split: prod.split)

lemma quiet_explain_instance: "quiet (explain_instance ex x predict_fn)"
  unfolding explain_instance_def
  by (intro quiet_and_then quiet_emit quiet_sample quiet_lift) simp

lemma quiet_generate_gemini_explanation: "quiet (generate_gemini_explanation env l d)"
  unfolding generate_gemini_explanation_def
  by (auto intro!: quiet_and_then quiet_emit quiet_return quiet_lift split: option.split)

lemma quiet_generate_pdf_report: "quiet (generate_pdf_report l e c)"
  unfolding generate_pdf_report_def
  by (intro quiet_and_then quiet_write_file quiet_return)

lemma quiet_predict_and_explain: "quiet (predict_and_explain env df)"
  unfolding predict_and_explain_def
  by (intro quiet_and_then quiet_attr quiet_lift quiet_emit quiet_explain_instance
        quiet_write_file quiet_read_file quiet_remove_file quiet_generate_gemini_explanation
        quiet_generate_pdf_report) simp_all

lemma quiet_page: "quiet (page env)"
  unfolding page_def
  by (auto intro!: quiet_and_then quiet_emit quiet_attr quiet_lift quiet_return
        quiet_predict_and_explain)

lemma sidebar_result:
  "sidebar env w =
     (Inr (), w\<lparr>events := events w @ SidebarHeader ''API Key Settings'' #
        (if gemini_api_key env \<noteq> [] then [Configure (gemini_api_key env)] else [])\<rparr>)"
  by (simp add: sidebar_def and_then_def emit_def return_def)

subsection \<open>The guard on the session state\<close>

lemma initialise_loaded: "loaded (session w) \<Longrightarrow> initialise env w = (Inr (), w)"
  by (simp add: initialise_def return_def)

lemma initialise_fresh:
  assumes "\<not> loaded (session w)"
    and "xgboost_model_pkl (pickles env) = Inr m"
    and "label_encoders_pkl (pickles env) = Inr le"
    and "target_encoder_pkl (pickles env) = Inr te"
    and "X_train_pkl (pickles env) = Inr x"
    and "lime_tabular_explainer env (rows x) (columns x) (classes te) ''classification'' False
           = Inr ex"
  shows "initialise env w =
           (Inr (), w\<lparr>session := \<lparr>xgb_model = Some m, label_encoders = Some le,
                target_encoder = Some te, X_train = Some x, explainer = Some ex,
                loaded = True\<rparr>,
              events := events w @ [Load xgboost_model_path, Load label_encoders_path,
                Load target_encoder_path, Load X_train_path]\<rparr>)"
  using assms
  by (simp add: initialise_def and_then_def joblib_load_def emit_def lift_def assign_def attr_def)

lemma script_loaded:
  assumes "loaded (session w)"
  shows "session (snd (script env w)) = session w
       \<and> loads (events (snd (script env w))) = loads (events w)"
proof -
  obtain w1 where s: "sidebar env w = (Inr (), w1)"
    and q: "session w1 = session w" "loads (events w1) = loads (events w)"
    by (simp add: sidebar_result loads_append)
  have i: "initialise env w1 = (Inr (), w1)"
    using assms q by (simp add: initialise_loaded)
  have "script env w = page env w1"
    by (simp add: script_def and_then_def s i)
  then show ?thesis
    using quiet_page [of env] q by (simp add: quiet_def)
qed

lemma reruns_loaded:
  "loaded (session w) \<Longrightarrow>
     session (reruns envs w) = session w \<and> loads (events (reruns envs w)) = loads (events w)"
proof (induction envs arbitrary: w)
  case Nil
  then show ?case by simp
next
  case (Cons env envs)
  from script_loaded [OF Cons.prems, of env] Cons.IH [of "snd (script env w)"] Cons.prems
  show ?case by simp
qed

lemma script_first_run:
  assumes "\<not> loaded (session w)"
    and "xgboost_model_pkl (pickles env) = Inr m"
    and "label_encoders_pkl (pickles env) = Inr le"
    and "target_encoder_pkl (pickles env) = Inr te"
    and "X_train_pkl (pickles env) = Inr x"
    and "lime_tabular_explainer env (rows x) (columns x) (classes te) ''classification'' False
           = Inr ex"
  shows "session (snd (script env w)) =
           \<lparr>xgb_model = Some m, label_encoders = Some le, target_encoder = Some te,
              X_train = Some x, explainer = Some ex, loaded = True\<rparr>
       \<and> loads (events (snd (script env w))) =
           loads (events w) @ [xgboost_model_path, label_encoders_path, target_encoder_path,
             X_train_path]"
proof -
  obtain w1 where s: "sidebar env w = (Inr (), w1)"
    and q: "session w1 = session w" "loads (events w1) = loads (events w)"
    by (simp add: sidebar_result loads_append)
  obtain w2 where i: "initialise env w1 = (Inr (), w2)"
    and w2: "session w2 = \<lparr>xgb_model = Some m, label_encoders = Some le,
               target_encoder = Some te, X_train = Some x, explainer = Some ex, loaded = True\<rparr>"
      "loads (events w2) = loads (events w) @ [xgboost_model_path, label_encoders_path,
         target_encoder_path, X_train_path]"
    using initialise_fresh [of w1 env m le te x ex] assms q by (simp add: loads_append)
  have "script env w = page env w2"
    using s i by (simp add: script_def and_then_def)
  then show ?thesis
    using quiet_page [of env] w2 by (simp add: quiet_def)
qed

lemma failed_first_run:
  "script failing_env fresh_world =
     (Inl (Raised ''FileNotFoundError''),
      fresh_world\<lparr>session := (session fresh_world)\<lparr>xgb_model := Some (demo_classifier 0)\<rparr>,
        events := [SidebarHeader ''API Key Settings'', Load xgboost_model_path,
          Load label_encoders_path]\<rparr>)"
  by (simp add: script_def and_then_def sidebar_result initialise_def joblib_load_def emit_def
      lift_def assign_def failing_env_def demo_env_def demo_files_def fresh_world_def)

text \<open>
  C10, as amended. Within one session, the first script run whose initialisation block
  completes (the four loads and the construction of the explainer all succeed) assigns
  the classifier model, the label encoders, the target encoder, the training data and
  the explainer and sets the \<open>loaded\<close> flag; whatever the later reruns are given (other
  files, other inputs, a pressed button), none of them loads a pickle or reassigns a
  handle, so every later prediction uses the same collaborator handles.
\<close>

theorem handles_loaded_once:
  assumes "\<not> loaded (session w)"
    and "xgboost_model_pkl (pickles env) = Inr m"
    and "label_encoders_pkl (pickles env) = Inr le"
    and "target_encoder_pkl (pickles env) = Inr te"
    and "X_train_pkl (pickles env) = Inr x"
    and "lime_tabular_explainer env (rows x) (columns x) (classes te) ''classification'' False
           = Inr ex"
  shows "session (reruns envs (snd (script env w))) =
           \<lparr>xgb_model = Some m, label_encoders = Some le, target_encoder = Some te,
              X_train = Some x, explainer = Some ex, loaded = True\<rparr>
       \<and> loads (events (reruns envs (snd (script env w)))) =
           loads (events w) @ [xgboost_model_path, label_encoders_path, target_encoder_path,
             X_train_path]"
proof -
  note first = script_first_run [OF assms]
  then have "loaded (session (snd (script env w)))" by simp
  from reruns_loaded [OF this, of envs] first show ?thesis by simp
qed

text \<open>
  The first run loads classifier 0; two reruns follow, the first of them with another
  classifier in the file. The session keeps classifier 0 and the four loads of the first
  run stay the only ones.
\<close>

theorem handles_loaded_once_witness:
  "session (reruns [demo_env\<lparr>pickles := demo_files 1\<rparr>, demo_env]
       (snd (script demo_env fresh_world)))
     = \<lparr>xgb_model = Some (demo_classifier 0), label_encoders = Some demo_encoders,
        target_encoder = Some [''Mild'', ''Severe''], X_train = Some demo_frame,
        explainer = Some demo_explainer, loaded = True\<rparr>
   \<and> loads (events (reruns [demo_env\<lparr>pickles := demo_files 1\<rparr>, demo_env]
       (snd (script demo_env fresh_world))))
     = [xgboost_model_path, label_encoders_path, target_encoder_path, X_train_path]"
  using handles_loaded_once [of fresh_world demo_env "demo_classifier 0" demo_encoders
      "[''Mild'', ''Severe'']" demo_frame demo_explainer
      "[demo_env\<lparr>pickles := demo_files 1\<rparr>, demo_env]"]
  by (simp add: fresh_world_def demo_env_def demo_files_def)

text \<open>
  C10 as stated fails when the first run does not complete the block. The first run
  reads the classifier and then fails on the label encoders' file: the classifier is
  assigned and \<open>loaded\<close> stays unset. The next run loads the classifier again and
  reassigns the handle, here with the other classifier the file then holds.
\<close>

theorem reload_after_failed_run:
  "xgb_model (session (reruns [failing_env] fresh_world)) = Some (demo_classifier 0)
   \<and> \<not> loaded (session (reruns [failing_env] fresh_world))
   \<and> xgb_model (session (reruns [failing_env, demo_env\<lparr>pickles := demo_files 1\<rparr>] fresh_world))
       = Some (demo_classifier 1)
   \<and> demo_classifier 1 \<noteq> demo_classifier 0
   \<and> loads (events (reruns [failing_env, demo_env\<lparr>pickles := demo_files 1\<rparr>] fresh_world))
       = [xgboost_model_path, label_encoders_path,
          xgboost_model_path, label_encoders_path, target_encoder_path, X_train_path]"
proof -
  let ?w1 = "snd (script failing_env fresh_world)"
  have nl: "\<not> loaded (session ?w1)"
    unfolding failed_first_run by (simp add: fresh_world_def)
  have second: "session (snd (script (demo_env\<lparr>pickles := demo_files 1\<rparr>) ?w1))
        = \<lparr>xgb_model = Some (demo_classifier 1), label_encoders = Some demo_encoders,
           target_encoder = Some [''Mild'', ''Severe''], X_train = Some demo_frame,
           explainer = Some demo_explainer, loaded = True\<rparr>
      \<and> loads (events (snd (script (demo_env\<lparr>pickles := demo_files 1\<rparr>) ?w1)))
        = loads (events ?w1) @ [xgboost_model_path, label_encoders_path, target_encoder_path,
            X_train_path]"
    by (rule script_first_run [OF nl]) (simp_all add: demo_env_def demo_files_def)
  have ne: "demo_classifier 1 \<noteq> demo_classifier 0"
    by (simp add: demo_classifier_def fun_eq_iff)
  show ?thesis
    using second ne unfolding reruns.simps failed_first_run by (simp add: fresh_world_def)
qed

subsection \<open>The generative-language service\<close>

text \<open>
  C9. When no API key has been entered (the sidebar field is the empty string),
  \<open>generate_gemini_explanation\<close> returns the fixed string asking for a key, whatever
  its arguments, and leaves the world as it was: no call to the generative-language
  service is made.
\<close>

theorem generate_gemini_explanation_no_key:
  "generate_gemini_explanation (env\<lparr>gemini_api_key := []\<rparr>) predicted_label user_input_data w
     = (Inr ''Please enter a valid Google Gemini API key in the sidebar.'', w)"
  by (simp add: generate_gemini_explanation_def return_def)

theorem generate_gemini_explanation_no_key_witness:
  "generate_gemini_explanation demo_env ''Mild'' ''Suggest coping mechanisms and next steps.''
       loaded_world
     = (Inr ''Please enter a valid Google Gemini API key in the sidebar.'', loaded_world)"
  using generate_gemini_explanation_no_key [of demo_env "''Mild''"
      "''Suggest coping mechanisms and next steps.''" loaded_world]
  by (simp add: demo_env_def)

subsection \<open>The encoding loop\<close>

lemma encode_columns_unknown:
  assumes "\<forall>col\<in>set cols. map_of encs col \<noteq> None"
    and "\<forall>col\<in>set cols. map_of df col \<noteq> None"
    and "\<exists>col\<in>set cols. \<exists>enc v.
           map_of encs col = Some enc \<and> map_of df col = Some v \<and> map_of enc v = None"
  shows "encode_columns encs cols df = Inl UnknownCategory"
  using assms
proof (induction cols arbitrary: df)
  case Nil
  then show ?case by simp
next
  case (Cons col cols)
  from Cons.prems(1) obtain enc where enc: "map_of encs col = Some enc" by auto
  from Cons.prems(2) obtain v where v: "map_of df col = Some v" by auto
  show ?case
  proof (cases "map_of enc v")
    case None
    then show ?thesis using enc v by (simp add: transform_def)
  next
    case (Some c)
    let ?df = "AList.update col (IntV c) df"
    from Cons.prems(3)
    obtain col' enc' v' where bad0: "col' \<in> set (col # cols)"
        "map_of encs col' = Some enc'" "map_of df col' = Some v'" "map_of enc' v' = None"
      by blast
    have ne: "col' \<noteq> col" using bad0 enc v Some by auto
    have bad: "col' \<in> set cols" using bad0 ne by simp
    have 1: "\<forall>k\<in>set cols. map_of encs k \<noteq> None" using Cons.prems(1) by simp
    have 2: "\<forall>k\<in>set cols. map_of ?df k \<noteq> None"
      using Cons.prems(2) by (simp add: update_conv')
    have 3: "\<exists>k\<in>set cols. \<exists>enc v.
        map_of encs k = Some enc \<and> map_of ?df k = Some v \<and> map_of enc v = None"
      using bad ne bad0 by (auto simp: update_conv')
    from Cons.IH [OF 1 2 3] show ?thesis using enc v Some by (simp add: transform_def)
  qed
qed

lemma encode_columns_total:
  assumes "distinct cols"
    and "\<forall>col\<in>set cols. \<exists>enc v c.
           map_of encs col = Some enc \<and> map_of df col = Some v \<and> map_of enc v = Some c"
  shows "\<exists>df'. encode_columns encs cols df = Inr df' \<and> map fst df' = map fst df \<and>
           (\<forall>col. col \<notin> set cols \<longrightarrow> map_of df' col = map_of df col) \<and>
           (\<forall>col\<in>set cols. \<exists>enc v c. map_of encs col = Some enc \<and> map_of df col = Some v \<and>
                map_of enc v = Some c \<and> map_of df' col = Some (IntV c))"
  using assms
proof (induction cols arbitrary: df)
  case Nil
  then show ?case by simp
next
  case (Cons col cols)
  from Cons.prems(2) obtain enc v c where
    here: "map_of encs col = Some enc" "map_of df col = Some v" "map_of enc v = Some c"
    by auto
  let ?df = "AList.update col (IntV c) df"
  have fresh: "col \<notin> set cols" and d: "distinct cols" using Cons.prems(1) by simp_all
  have keys: "map fst ?df = map fst df"
    using here(2) by (simp add: update_keys map_of_eq_None_iff [symmetric])
  have rest: "\<forall>k\<in>set cols. \<exists>enc v c.
      map_of encs k = Some enc \<and> map_of ?df k = Some v \<and> map_of enc v = Some c"
    using Cons.prems(2) fresh by (auto simp: update_conv')
  from Cons.IH [OF d rest] obtain df' where
    ih: "encode_columns encs cols ?df = Inr df'" "map fst df' = map fst ?df"
      "\<forall>k. k \<notin> set cols \<longrightarrow> map_of df' k = map_of ?df k"
      "\<forall>k\<in>set cols. \<exists>enc v c. map_of encs k = Some enc \<and> map_of ?df k = Some v \<and>
          map_of enc v = Some c \<and> map_of df' k = Some (IntV c)"
    by blast
  have run: "encode_columns encs (col # cols) df = Inr df'"
    using here ih(1) by (simp add: transform_def)
  have other: "\<forall>k. k \<notin> set (col # cols) \<longrightarrow> map_of df' k = map_of df k"
    using ih(3) by (simp add: update_conv')
  have this_col: "map_of df' col = Some (IntV c)"
    using ih(3) fresh by (simp add: update_conv')
  have those: "\<forall>k\<in>set cols. \<exists>enc v c. map_of encs k = Some enc \<and> map_of df k = Some v \<and>
          map_of enc v = Some c \<and> map_of df' k = Some (IntV c)"
    using ih(4) fresh by (auto simp: update_conv' split: if_splits)
  show ?case
    using run ih(2) keys other this_col here those by auto
qed

lemma script_encode_fails:
  assumes "loaded (session w)" and "label_encoders (session w) = Some encs"
    and "encode encs (user_input (widgets env)) = Inl e"
  shows "fst (script env w) = Inl e
       \<and> explain_calls (events (snd (script env w))) = explain_calls (events w)"
  using assms
  by (simp add: script_def page_def and_then_def sidebar_result initialise_loaded emit_def
      attr_def lift_def explain_calls_append)

text \<open>
  C8. In an initialised session whose label encoders all belong to columns of the form:
  if the record has, in an encoded column, a cell outside that encoder's training-time
  value set, the run fails with \<open>UnknownCategory\<close> and the explainer has not been called;
  if every encoded cell is inside its encoder's value set, the encoding returns a frame
  (it is a function of the encoders and the record) with the same columns, the encoded
  cells replaced by their codes and the other cells unchanged.
\<close>

theorem unknown_category_aborts_before_explanation:
  assumes "loaded (session w)"
    and "label_encoders (session w) = Some encs"
    and "distinct (map fst encs)"
    and "\<forall>(col, enc) \<in> set encs. map_of (user_input (widgets env)) col \<noteq> None"
  shows "((\<exists>(col, enc) \<in> set encs. \<exists>v.
              map_of (user_input (widgets env)) col = Some v \<and> v \<notin> value_set enc)
            \<longrightarrow> fst (script env w) = Inl UnknownCategory
              \<and> explain_calls (events (snd (script env w))) = explain_calls (events w))
       \<and> ((\<forall>(col, enc) \<in> set encs. \<forall>v.
              map_of (user_input (widgets env)) col = Some v \<longrightarrow> v \<in> value_set enc)
            \<longrightarrow> (\<exists>df. encode encs (user_input (widgets env)) = Inr df
                  \<and> map fst df = map fst (user_input (widgets env))
                  \<and> (\<forall>(col, enc) \<in> set encs. \<exists>v c.
                        map_of (user_input (widgets env)) col = Some v
                        \<and> map_of enc v = Some c \<and> map_of df col = Some (IntV c))
                  \<and> (\<forall>col. col \<notin> fst ` set encs
                        \<longrightarrow> map_of df col = map_of (user_input (widgets env)) col)))"
proof (intro conjI impI)
  let ?row = "user_input (widgets env)"
  have known: "\<forall>col\<in>set (map fst encs). map_of encs col \<noteq> None"
    by (simp add: map_of_eq_None_iff)
  have present: "\<forall>col\<in>set (map fst encs). map_of ?row col \<noteq> None"
    using assms(4) by auto
  {
    assume "\<exists>(col, enc) \<in> set encs. \<exists>v. map_of ?row col = Some v \<and> v \<notin> value_set enc"
    then obtain col enc v where bad: "(col, enc) \<in> set encs" "map_of ?row col = Some v"
        "v \<notin> value_set enc"
      by auto
    have "map_of encs col = Some enc" using bad(1) assms(3) by simp
    moreover have "map_of enc v = None"
      using bad(3) by (simp add: value_set_def map_of_eq_None_iff)
    moreover have "col \<in> set (map fst encs)" using bad(1) by force
    ultimately have "\<exists>col\<in>set (map fst encs). \<exists>enc v. map_of encs col = Some enc
        \<and> map_of ?row col = Some v \<and> map_of enc v = None"
      using bad(2) by blast
    from encode_columns_unknown [OF known present this]
    have fails: "encode encs ?row = Inl UnknownCategory" by (simp add: encode_def)
    from script_encode_fails [OF assms(1,2) fails]
    show "fst (script env w) = Inl UnknownCategory"
      and "explain_calls (events (snd (script env w))) = explain_calls (events w)"
      by simp_all
  }
  {
    assume inside: "\<forall>(col, enc) \<in> set encs. \<forall>v.
      map_of ?row col = Some v \<longrightarrow> v \<in> value_set enc"
    have each: "\<forall>col\<in>set (map fst encs). \<exists>enc v c. map_of encs col = Some enc
        \<and> map_of ?row col = Some v \<and> map_of enc v = Some c"
    proof
      fix col assume "col \<in> set (map fst encs)"
      then obtain enc where e: "(col, enc) \<in> set encs" by auto
      then have m: "map_of encs col = Some enc" using assms(3) by simp
      from e assms(4) obtain v where v: "map_of ?row col = Some v" by auto
      with inside e have "v \<in> value_set enc" by auto
      then obtain c where "map_of enc v = Some c"
        by (cases "map_of enc v") (auto simp: value_set_def map_of_eq_None_iff)
      with m v show "\<exists>enc v c. map_of encs col = Some enc \<and> map_of ?row col = Some v
          \<and> map_of enc v = Some c"
        by blast
    qed
    from encode_columns_total [OF assms(3) each] obtain df where
      df: "encode_columns encs (map fst encs) ?row = Inr df" "map fst df = map fst ?row"
        "\<forall>col. col \<notin> set (map fst encs) \<longrightarrow> map_of df col = map_of ?row col"
        "\<forall>col\<in>set (map fst encs). \<exists>enc v c. map_of encs col = Some enc
            \<and> map_of ?row col = Some v \<and> map_of enc v = Some c
            \<and> map_of df col = Some (IntV c)"
      by blast
    have coded: "\<forall>(col, enc) \<in> set encs. \<exists>v c. map_of ?row col = Some v
        \<and> map_of enc v = Some c \<and> map_of df col = Some (IntV c)"
    proof (clarify)
      fix col enc assume e: "(col, enc) \<in> set encs"
      then have "col \<in> set (map fst encs)" by force
      with df(4) obtain enc' v c where "map_of encs col = Some enc'"
          "map_of ?row col = Some v" "map_of enc' v = Some c" "map_of df col = Some (IntV c)"
        by blast
      moreover have "map_of encs col = Some enc" using e assms(3) by simp
      ultimately show "\<exists>v c. map_of ?row col = Some v \<and> map_of enc v = Some c
          \<and> map_of df col = Some (IntV c)"
        by auto
    qed
    show "\<exists>df. encode encs ?row = Inr df \<and> map fst df = map fst ?row
        \<and> (\<forall>(col, enc) \<in> set encs. \<exists>v c. map_of ?row col = Some v
              \<and> map_of enc v = Some c \<and> map_of df col = Some (IntV c))
        \<and> (\<forall>col. col \<notin> fst ` set encs \<longrightarrow> map_of df col = map_of ?row col)"
      using df(1,2,3) coded by (auto simp: encode_def)
  }
qed

text \<open>
  With the example encoders: the gender \<open>other\<close> was not seen in training and aborts the
  run, button pressed or not, with no call of the explainer; the default form is encoded,
  gender and BMI category by their codes, the age as it was.
\<close>

theorem unknown_category_aborts_before_explanation_witness:
  "fst (script (demo_env\<lparr>widgets := demo_form\<lparr>gender := ''other''\<rparr>, button := True\<rparr>)
          loaded_world)
       = Inl UnknownCategory
   \<and> explain_calls (events (snd (script
          (demo_env\<lparr>widgets := demo_form\<lparr>gender := ''other''\<rparr>, button := True\<rparr>)
          loaded_world))) = []
   \<and> (\<exists>df. encode demo_encoders (user_input demo_form) = Inr df
        \<and> map_of df ''gender'' = Some (IntV 1) \<and> map_of df ''who_bmi'' = Some (IntV 2)
        \<and> map_of df ''age'' = Some (IntV 25))"
proof -
  let ?bad = "demo_env\<lparr>widgets := demo_form\<lparr>gender := ''other''\<rparr>, button := True\<rparr>"
  have l: "loaded (session loaded_world)"
    and e: "label_encoders (session loaded_world) = Some demo_encoders"
    by (simp_all add: loaded_world_def)
  have d: "distinct (map fst demo_encoders)" by (simp add: demo_encoders_def)
  have p1: "\<forall>(col, enc) \<in> set demo_encoders. map_of (user_input (widgets ?bad)) col \<noteq> None"
    by (simp add: demo_encoders_def user_input_def demo_env_def)
  have p2: "\<forall>(col, enc) \<in> set demo_encoders.
      map_of (user_input (widgets demo_env)) col \<noteq> None"
    by (simp add: demo_encoders_def user_input_def demo_env_def)
  have outside: "\<exists>(col, enc) \<in> set demo_encoders. \<exists>v.
      map_of (user_input (widgets ?bad)) col = Some v \<and> v \<notin> value_set enc"
    by (simp add: demo_encoders_def user_input_def demo_env_def demo_form_def value_set_def)
  have inside: "\<forall>(col, enc) \<in> set demo_encoders. \<forall>v.
      map_of (user_input (widgets demo_env)) col = Some v \<longrightarrow> v \<in> value_set enc"
    by (simp add: demo_encoders_def user_input_def demo_env_def demo_form_def value_set_def)
  from unknown_category_aborts_before_explanation [OF l e d p1] outside
  have a: "fst (script ?bad loaded_world) = Inl UnknownCategory"
    "explain_calls (events (snd (script ?bad loaded_world)))
       = explain_calls (events loaded_world)"
    by blast+
  from unknown_category_aborts_before_explanation [OF l e d p2] inside
  obtain df where df: "encode demo_encoders (user_input (widgets demo_env)) = Inr df"
    "\<forall>(col, enc) \<in> set demo_encoders. \<exists>v c.
        map_of (user_input (widgets demo_env)) col = Some v
        \<and> map_of enc v = Some c \<and> map_of df col = Some (IntV c)"
    "\<forall>col. col \<notin> fst ` set demo_encoders
        \<longrightarrow> map_of df col = map_of (user_input (widgets demo_env)) col"
    by blast
  have w: "widgets demo_env = demo_form" by (simp add: demo_env_def)
  have g: "map_of df ''gender'' = Some (IntV 1)" "map_of df ''who_bmi'' = Some (IntV 2)"
    using df(2) by (auto simp: demo_encoders_def user_input_def w demo_form_def)
  have ag: "map_of df ''age'' = Some (IntV 25)"
    using df(3) [rule_format, of "''age''"]
    by (simp add: demo_encoders_def user_input_def w demo_form_def)
  show ?thesis using a df(1) g ag by (simp add: w loaded_world_def)
qed

subsection \<open>A classifier that raises\<close>

text \<open>
  C6. In an initialised session whose classifier raises on every call of
  \<^verbatim>\<open>predict_proba\<close>, a press of the button always ends in a failure: no file is written,
  no download is offered, so no explanation, partial or not, reaches the user. When
  the prediction that precedes the explanation request has succeeded, the failure is
  \<open>ClassifierUnavailable\<close>, and all the run has shown is the predicted label and the
  heading of the explanation.
\<close>

theorem classifier_failure_aborts_explanation:
  assumes "xgb_model (session w) = Some model"
    and "target_encoder (session w) = Some target"
    and "explainer (session w) = Some ex"
    and "\<forall>batch. isl (predict_proba model batch)"
  shows "isl (fst (predict_and_explain env df w))
       \<and> fs (snd (predict_and_explain env df w)) = fs w
       \<and> downloads (events (snd (predict_and_explain env df w))) = downloads (events w)
       \<and> (\<forall>c l. predict model (map snd df) = Inr c \<and> inverse_transform target c = Inr l \<longrightarrow>
            predict_and_explain env df w =
              (Inl ClassifierUnavailable,
               w\<lparr>events := events w @
                    [Success (''**Predicted Mental Health Condition:** '' @ l),
                     Write ''### LIME Explanation:'', Explain (map snd df)],
                  np_random := snd (neighborhood ex (np_random w) (map snd df))\<rparr>))"
proof -
  have q: "query (predict_proba model) nb = Inl ClassifierUnavailable" for nb
  proof (cases "predict_proba model nb")
    case (Inl e)
    then show ?thesis by (simp add: query_def)
  next
    case (Inr ps)
    with assms(4) [rule_format, of nb] show ?thesis by simp
  qed
  show ?thesis
  proof (cases "predict model (map snd df)")
    case (Inl e)
    then show ?thesis using assms(1)
      by (simp add: predict_and_explain_def and_then_def attr_def lift_def)
  next
    case (Inr c)
    show ?thesis
    proof (cases "inverse_transform target c")
      case (Inl e)
      then show ?thesis using assms(1,2) Inr
        by (simp add: predict_and_explain_def and_then_def attr_def lift_def)
    next
      case (Inr l)
      then show ?thesis using assms(1,2,3) \<open>predict model (map snd df) = Inr c\<close> q
        by (simp add: predict_and_explain_def and_then_def attr_def lift_def emit_def
            explain_instance_def sample_def downloads_append split: prod.split)
    qed
  qed
qed

theorem classifier_failure_aborts_explanation_witness:
  "(\<forall>batch. isl (predict_proba (demo_classifier 0) batch))
   \<and> predict (demo_classifier 0) (map snd (user_input demo_form)) = Inr 0
   \<and> inverse_transform [''Mild'', ''Severe''] 0 = Inr ''Mild''
   \<and> predict_and_explain demo_env (user_input demo_form) loaded_world =
       (Inl ClassifierUnavailable,
        loaded_world\<lparr>events :=
            [Success ''**Predicted Mental Health Condition:** Mild'',
             Write ''### LIME Explanation:'', Explain (map snd (user_input demo_form))],
          np_random := 1\<rparr>)"
  using classifier_failure_aborts_explanation [of loaded_world "demo_classifier 0"
      "[''Mild'', ''Severe'']" demo_explainer demo_env "user_input demo_form"]
  by (simp add: loaded_world_def demo_classifier_def demo_explainer_def inverse_transform_def)

end
